theory Spec2Isabelle
  imports
    Complex_Main
    "HOL-Library.AList"
    "HOL-Library.Char_ord"
    "HOL-Library.List_Lexorder"
    "HOL-Library.Product_Lexorder"
begin

section \<open>Python values, exceptions and the process state\<close>

text \<open>
  The pipeline is Python built on pandas, scikit-learn, joblib, APScheduler and FastAPI.
  The embedding keeps the control flow, the dictionary and list manipulation, the file
  reads and writes and every \<^verbatim>\<open>raise\<close> / \<^verbatim>\<open>try\<close> of the source. A Python exception
  is a value of type \<open>exn\<close>; a function that can raise returns \<open>exn + 'a\<close> with
  \<open>Inl\<close> the exception, and a function that also has effects returns the result paired
  with the state it leaves behind, so that the effects performed before a raise are kept.
\<close>

datatype exn =
    KeyError string
  | ValueError string
  | TypeError string
  | AttributeError string
  | IndexError string
  | OSError string
  | HTTPException nat string
  | LibraryError string

text \<open>
  A cell of a data frame (and an element of a Python list): a string, an integer, a
  float, a timestamp (nanoseconds since the epoch) or the missing value NaN / NaT.
\<close>

datatype cell = CStr string | CInt int | CFloat real | CTime int | CNaN

type_synonym row = "(string \<times> cell) list"

record dataframe =
  columns :: "string list"
  rows :: "row list"

text \<open>
  What \<^verbatim>\<open>joblib.dump\<close> stores: here always a dict whose values are fitted estimators
  (of an abstract type \<open>'e\<close>) or lists. A dict is an association list in insertion
  order.
\<close>

datatype 'e pyobj = Estimator 'e | PyList "cell list"

type_synonym 'e artifact = "(string \<times> 'e pyobj) list"

datatype 'e stored = Joblib "'e artifact" | Csv dataframe | Parquet dataframe

datatype msg =
    InputNotFound string
  | EngagementAccuracy real
  | NotEnoughItems
  | RecommenderTrained nat
  | StartingTrainingRun
  | TrainingComplete
  | TrainingFailed exn
  | InitialRunFailed exn
  | SchedulerStarted real

datatype hook = SchedulerShutdown

datatype sched_event = JobAdded string string real | SchedulerRunning

text \<open>
  The state of the process: the regular files on disk by path, the lines printed so far,
  the callbacks registered with \<^verbatim>\<open>atexit\<close>, and what the process has asked of its
  scheduler so far, in order. Directories are not tracked: \<^verbatim>\<open>os.makedirs(..., exist_ok=True)\<close>
  leaves the state as it is, and the directories \<^verbatim>\<open>data\<close> and \<^verbatim>\<open>models\<close> beside the
  module, which are the program's own, can always be created and written. A file at a path
  given by the caller is created by \<open>to_csv\<close> below, which fails where the operating
  system refuses the path. The embedding is sequential: a call runs from its first
  statement to its last on the state it is given, and the threads of the web server and of
  the scheduler are not interleaved.
\<close>

record 'e world =
  files :: "string \<rightharpoonup> 'e stored"
  stdout :: "msg list"
  atexit :: "hook list"
  scheduler_events :: "sched_event list"

definition print :: "msg \<Rightarrow> 'e world \<Rightarrow> 'e world" where
  "print m w = w\<lparr>stdout := stdout w @ [m]\<rparr>"

text \<open>
  \<^verbatim>\<open>os.makedirs(base, exist_ok=True)\<close>. Directories being untracked, the call changes
  nothing in the model. Where the operating system would refuse it because \<open>base\<close>
  passes through a regular file, the file that was to be created below \<open>base\<close> cannot
  be created either: \<open>to_csv\<close> raises for it.
\<close>

definition os_makedirs :: "string \<Rightarrow> 'e world \<Rightarrow> 'e world" where
  "os_makedirs base w = w"

definition os_path_exists :: "string \<Rightarrow> 'e world \<Rightarrow> bool" where
  "os_path_exists path w = (files w path \<noteq> None)"

definition os_path_join :: "string \<Rightarrow> string \<Rightarrow> string" where
  "os_path_join a b =
     (case b of
        c # _ \<Rightarrow>
          if c = CHR ''/'' then b
          else if a = [] \<or> last a = CHR ''/'' then a @ b
          else a @ ''/'' @ b
      | [] \<Rightarrow> if a = [] \<or> last a = CHR ''/'' then a else a @ ''/'')"

definition os_path_dirname :: "string \<Rightarrow> string" where
  "os_path_dirname p =
     (let head = rev (dropWhile (\<lambda>c. c \<noteq> CHR ''/'') (rev p))
      in if head \<noteq> [] \<and> \<not> list_all (\<lambda>c. c = CHR ''/'') head
         then rev (dropWhile (\<lambda>c. c = CHR ''/'') (rev head))
         else head)"

definition dirname_or_dot :: "string \<Rightarrow> string" where
  "dirname_or_dot path = (let d = os_path_dirname path in if d = [] then ''.'' else d)"

text \<open>Decimal printing of an integer, as in an f-string.\<close>

function show_nat :: "nat \<Rightarrow> string" where
  "show_nat n =
     (if n < 10 then [char_of (48 + n)]
      else show_nat (n div 10) @ [char_of (48 + n mod 10)])"
  by pat_completeness auto
termination
  by (relation "measure id") auto

definition show_int :: "int \<Rightarrow> string" where
  "show_int i = (if i < 0 then CHR ''-'' # show_nat (nat (- i)) else show_nat (nat i))"

text \<open>Python's \<^verbatim>\<open>int(x)\<close> on a float truncates towards zero.\<close>

definition py_int :: "real \<Rightarrow> int" where
  "py_int x = (if 0 \<le> x then \<lfloor>x\<rfloor> else \<lceil>x\<rceil>)"

text \<open>
  The libraries and the environment the code calls into, as parameters. The numeric
  fitting and scoring of scikit-learn, the random generator of numpy and the clock are
  not part of the repository; each field stands for the calls named beside it and may
  return an exception where the library can raise.
\<close>

record ('e, 'g) env =
  module_dir :: string \<comment> \<open>\<^verbatim>\<open>os.path.dirname(__file__)\<close>\<close>
  utcnow :: int \<comment> \<open>\<^verbatim>\<open>datetime.utcnow()\<close>, in nanoseconds\<close>
  fmt_cell :: "cell \<Rightarrow> string" \<comment> \<open>\<^verbatim>\<open>str\<close> of a float or a timestamp\<close>
  parse_datetime :: "string \<Rightarrow> int option" \<comment> \<open>date parsing of \<^verbatim>\<open>pd.to_datetime\<close>\<close>
  os_refuses :: "string \<Rightarrow> bool"
    \<comment> \<open>the operating system refuses to create a file at the path for a reason the state does
      not hold: the path is an existing directory, permissions, a name too long, a full disk\<close>
  default_rng :: "int \<Rightarrow> 'g"
  rng_integers :: "'g \<Rightarrow> int \<Rightarrow> int \<Rightarrow> int \<times> 'g"
  rng_normal :: "'g \<Rightarrow> real \<Rightarrow> real \<Rightarrow> real \<times> 'g"
  rng_poisson :: "'g \<Rightarrow> real \<Rightarrow> int \<times> 'g"
  rng_choice :: "'g \<Rightarrow> string list \<Rightarrow> string \<times> 'g"
  fit_engagement :: "cell list list \<Rightarrow> cell list \<Rightarrow> exn + ('e \<times> 'e \<times> real)"
    \<comment> \<open>train.py lines 19 to 26 on \<open>X\<close> and the \<open>engaged\<close> column: classifier, scaler, accuracy\<close>
  fit_nn :: "nat \<Rightarrow> cell list list \<Rightarrow> exn + 'e"
    \<comment> \<open>\<^verbatim>\<open>NearestNeighbors(n_neighbors=k, metric="cosine").fit(X)\<close>\<close>
  scaler_transform :: "'e \<Rightarrow> cell list list \<Rightarrow> exn + real list list"
  predict_proba :: "'e \<Rightarrow> real list list \<Rightarrow> exn + real"
    \<comment> \<open>\<^verbatim>\<open>float(model.predict_proba(Xs)[0, 1])\<close>\<close>
  kneighbors :: "'e \<Rightarrow> nat \<Rightarrow> exn + int list"
    \<comment> \<open>\<^verbatim>\<open>nn.kneighbors(nn._fit_X[idx:idx+1])[1][0]\<close>\<close>

section \<open>Data frames\<close>

definition cell_at :: "row \<Rightarrow> string \<Rightarrow> cell" where
  "cell_at r c = (case map_of r c of Some v \<Rightarrow> v | None \<Rightarrow> CNaN)"

text \<open>\<^verbatim>\<open>df[c]\<close>: a KeyError when the frame has no such column.\<close>

definition column :: "dataframe \<Rightarrow> string \<Rightarrow> exn + cell list" where
  "column df c =
     (if c \<in> set (columns df) then Inr (map (\<lambda>r. cell_at r c) (rows df))
      else Inl (KeyError c))"

text \<open>\<^verbatim>\<open>df[c] = vs\<close>: replaces the column in place, or appends it as the last one.\<close>

definition set_column :: "dataframe \<Rightarrow> string \<Rightarrow> cell list \<Rightarrow> dataframe" where
  "set_column df c vs =
     \<lparr>columns = (if c \<in> set (columns df) then columns df else columns df @ [c]),
      rows = map (\<lambda>(r, v). AList.update c v r) (zip (rows df) vs)\<rparr>"

text \<open>\<^verbatim>\<open>pd.DataFrame(rows)\<close> on a list of dicts: the columns are the keys, in the order met.\<close>

definition DataFrame :: "row list \<Rightarrow> dataframe" where
  "DataFrame rs = \<lparr>columns = rev (remdups (rev (concat (map (map fst) rs)))), rows = rs\<rparr>"

fun map_exn :: "('a \<Rightarrow> exn + 'b) \<Rightarrow> 'a list \<Rightarrow> exn + 'b list" where
  "map_exn f [] = Inr []"
| "map_exn f (x # xs) =
     (case f x of
        Inl e \<Rightarrow> Inl e
      | Inr y \<Rightarrow> (case map_exn f xs of Inl e \<Rightarrow> Inl e | Inr ys \<Rightarrow> Inr (y # ys)))"

text \<open>
  The order pandas sorts group keys and category values by: numbers before timestamps
  before strings, each kind in its own order.
\<close>

fun cell_key :: "cell \<Rightarrow> nat \<times> real \<times> string" where
  "cell_key (CInt n) = (0, real_of_int n, [])"
| "cell_key (CFloat x) = (0, x, [])"
| "cell_key (CTime t) = (1, real_of_int t, [])"
| "cell_key (CStr s) = (2, 0, s)"
| "cell_key CNaN = (3, 0, [])"

definition fillna0 :: "cell \<Rightarrow> cell" where
  "fillna0 v = (if v = CNaN then CInt 0 else v)"

text \<open>The distinct values of a column without NaN, sorted: the keys of a group-by.\<close>

definition sorted_unique :: "cell list \<Rightarrow> cell list" where
  "sorted_unique vs = sort_key cell_key (remdups (filter (\<lambda>v. v \<noteq> CNaN) vs))"

definition agg_max :: "cell list \<Rightarrow> cell" where
  "agg_max vs =
     (case filter (\<lambda>v. v \<noteq> CNaN) vs of
        [] \<Rightarrow> CNaN
      | x # xs \<Rightarrow> fold (\<lambda>v m. if cell_key m < cell_key v then v else m) xs x)"

definition agg_nunique :: "cell list \<Rightarrow> cell" where
  "agg_nunique vs = CInt (int (length (remdups (filter (\<lambda>v. v \<noteq> CNaN) vs))))"

section \<open>data_processing.py\<close>

definition ensure_dirs :: "string \<Rightarrow> 'e world \<Rightarrow> 'e world" where
  "ensure_dirs base w = os_makedirs base w"

definition categories :: "string list" where
  "categories = [''crypto'', ''finance'', ''ml'', ''web3'', ''misc'']"

text \<open>
  The body of the loop of \<^verbatim>\<open>generate_synthetic\<close>: a row draws its seven values from the
  generator in the order of the source, and hands the generator on.
\<close>

definition synthetic_row :: "('e, 'g) env \<Rightarrow> int \<Rightarrow> 'g \<Rightarrow> row \<times> 'g" where
  "synthetic_row E now g =
     (let (u, g1) = rng_integers E g 1 200;
          (x, g2) = rng_normal E g1 300 120;
          session_length = \<bar>py_int x\<bar>;
          (y, g3) = rng_normal E g2 5 2;
          pages = max 1 (py_int y);
          (a, g4) = rng_poisson E g3 3;
          acts = max 0 a;
          (i, g5) = rng_integers E g4 1 200;
          (item_cat, g6) = rng_choice E g5 categories;
          (m, g7) = rng_integers E g6 0 (60 * 24 * 30);
          ts = now - m * 60000000000
      in ([(''user_id'', CStr (''user_'' @ show_int u)),
           (''session_duration'', CInt session_length),
           (''pages_viewed'', CInt pages),
           (''actions'', CInt acts),
           (''item_id'', CStr (''item_'' @ show_int i)),
           (''item_category'', CStr item_cat),
           (''timestamp'', CTime ts)],
          g7))"

text \<open>The loop \<^verbatim>\<open>for i in range(n)\<close>, appending one row per turn.\<close>

fun synthetic_rows :: "('e, 'g) env \<Rightarrow> int \<Rightarrow> nat \<Rightarrow> 'g \<Rightarrow> row list" where
  "synthetic_rows E now 0 g = []"
| "synthetic_rows E now (Suc k) g =
     (let (r, g') = synthetic_row E now g in r # synthetic_rows E now k g')"

text \<open>
  The directories that a path names on the way to its last component: \<open>/a\<close> and
  \<open>/a/b\<close> for \<open>/a/b/c.csv\<close>.
\<close>

fun dir_prefixes_from :: "string \<Rightarrow> string \<Rightarrow> string list" where
  "dir_prefixes_from acc [] = []"
| "dir_prefixes_from acc (c # cs) =
     (if c = CHR ''/'' \<and> acc \<noteq> [] then [acc] else []) @ dir_prefixes_from (acc @ [c]) cs"

definition dir_prefixes :: "string \<Rightarrow> string list" where
  "dir_prefixes p = dir_prefixes_from [] p"

text \<open>The last component of a path: what follows its last slash.\<close>

definition os_path_basename :: "string \<Rightarrow> string" where
  "os_path_basename p = rev (takeWhile (\<lambda>c. c \<noteq> CHR ''/'') (rev p))"

text \<open>
  \<^verbatim>\<open>df.to_csv(path, index=False)\<close> after \<^verbatim>\<open>ensure_dirs(os.path.dirname(path) or ".")\<close>:
  the file is created unless the path is empty, holds a NUL byte, names a directory (it
  ends in a slash, or in the component \<open>.\<close> or \<open>..\<close>), passes through a regular file, or
  is refused by the operating system for a reason of its own. In each of these cases
  \<^verbatim>\<open>os.makedirs\<close> or \<^verbatim>\<open>open\<close> raises and nothing is written.
\<close>

definition to_csv ::
  "('e, 'g) env \<Rightarrow> dataframe \<Rightarrow> string \<Rightarrow> 'e world \<Rightarrow> (exn + unit) \<times> 'e world" where
  "to_csv E df path w =
     (if path = [] then (Inl (OSError ''No such file or directory''), w)
      else if CHR 0x00 \<in> set path then (Inl (ValueError ''embedded null byte''), w)
      else if os_path_basename path \<in> set [[], ''.'', ''..'']
        then (Inl (OSError ''Is a directory''), w)
      else if list_ex (\<lambda>d. files w d \<noteq> None) (dir_prefixes path)
        then (Inl (OSError ''Not a directory''), w)
      else if os_refuses E path then (Inl (OSError ''refused by the operating system''), w)
      else (Inr (), w\<lparr>files := (files w)(path \<mapsto> Csv df)\<rparr>))"

definition generate_synthetic ::
  "('e, 'g) env \<Rightarrow> string \<Rightarrow> nat \<Rightarrow> 'e world \<Rightarrow> (exn + dataframe) \<times> 'e world" where
  "generate_synthetic E path n w =
     (let w1 = ensure_dirs (dirname_or_dot path) w;
          rng = default_rng E 42;
          now = utcnow E;
          df = DataFrame (synthetic_rows E now n rng)
      in case to_csv E df path w1 of
           (Inl e, w2) \<Rightarrow> (Inl e, w2)
         | (Inr _, w2) \<Rightarrow> (Inr df, w2))"

text \<open>
  \<^verbatim>\<open>pd.read_csv(path, parse_dates=[...])\<close> on an existing path: the file must be a CSV
  table, and pandas raises ValueError when a column named in \<^verbatim>\<open>parse_dates\<close> is missing.
\<close>

definition read_csv :: "string \<Rightarrow> string list \<Rightarrow> 'e world \<Rightarrow> exn + dataframe" where
  "read_csv path parse_dates w =
     (case files w path of
        Some (Csv df) \<Rightarrow>
          if list_all (\<lambda>c. c \<in> set (columns df)) parse_dates then Inr df
          else Inl (ValueError ''Missing column provided to parse_dates'')
      | _ \<Rightarrow> Inl (LibraryError ''read_csv''))"

definition default_input_path :: "('e, 'g) env \<Rightarrow> string" where
  "default_input_path E =
     os_path_join (os_path_join (module_dir E) ''data'') ''user_behavior.csv''"

definition load_raw ::
  "('e, 'g) env \<Rightarrow> string option \<Rightarrow> 'e world \<Rightarrow> (exn + dataframe) \<times> 'e world" where
  "load_raw E path_opt w =
     (let path = (case path_opt of None \<Rightarrow> default_input_path E | Some p \<Rightarrow> p)
      in if \<not> os_path_exists path w then
           generate_synthetic E path 1000 (print (InputNotFound path) w)
         else (read_csv path [''timestamp''] w, w))"

text \<open>\<^verbatim>\<open>series > 300\<close> followed by \<^verbatim>\<open>.astype(int)\<close>, cell by cell.\<close>

definition gt_300 :: "cell \<Rightarrow> exn + cell" where
  "gt_300 v =
     (case v of
        CInt n \<Rightarrow> Inr (CInt (if n > 300 then 1 else 0))
      | CFloat x \<Rightarrow> Inr (CInt (if x > 300 then 1 else 0))
      | CNaN \<Rightarrow> Inr (CInt 0)
      | CStr s \<Rightarrow> Inl (TypeError ''> not supported between str and int'')
      | CTime t \<Rightarrow> Inl (TypeError ''invalid comparison between datetime and int''))"

text \<open>\<^verbatim>\<open>series.dt.hour\<close>, cell by cell; only timestamps have the accessor.\<close>

definition dt_hour :: "cell \<Rightarrow> exn + cell" where
  "dt_hour v =
     (case v of
        CTime t \<Rightarrow> Inr (CInt ((t div 3600000000000) mod 24))
      | CNaN \<Rightarrow> Inr CNaN
      | _ \<Rightarrow> Inl (AttributeError ''Can only use .dt accessor with datetimelike values''))"

definition to_datetime :: "('e, 'g) env \<Rightarrow> cell \<Rightarrow> exn + cell" where
  "to_datetime E v =
     (case v of
        CTime t \<Rightarrow> Inr (CTime t)
      | CNaN \<Rightarrow> Inr CNaN
      | CInt n \<Rightarrow> Inr (CTime n)
      | CFloat x \<Rightarrow> Inr (CTime (py_int x))
      | CStr s \<Rightarrow>
          (case parse_datetime E s of
             Some t \<Rightarrow> Inr (CTime t)
           | None \<Rightarrow> Inl (ValueError s)))"

definition cell_label :: "('e, 'g) env \<Rightarrow> cell \<Rightarrow> string" where
  "cell_label E v = (case v of CStr s \<Rightarrow> s | CInt n \<Rightarrow> show_int n | _ \<Rightarrow> fmt_cell E v)"

text \<open>
  \<^verbatim>\<open>pd.get_dummies(df, columns=[c], prefix=p)\<close>: column \<open>c\<close> is replaced by one 0/1
  indicator column per distinct value, named \<open>p_value\<close>, appended in sorted order.
\<close>

definition get_dummies ::
  "('e, 'g) env \<Rightarrow> dataframe \<Rightarrow> string \<Rightarrow> string \<Rightarrow> exn + dataframe" where
  "get_dummies E df c prefix =
     (case column df c of
        Inl e \<Rightarrow> Inl e
      | Inr vs \<Rightarrow>
          (let cats = sorted_unique vs;
               name = (\<lambda>v. prefix @ ''_'' @ cell_label E v)
           in Inr \<lparr>columns = filter (\<lambda>k. k \<noteq> c) (columns df) @ map name cats,
                   rows = map (\<lambda>r. AList.delete c r
                                 @ map (\<lambda>v. (name v, CInt (if cell_at r c = v then 1 else 0))) cats)
                              (rows df)\<rparr>))"

definition process :: "('e, 'g) env \<Rightarrow> dataframe \<Rightarrow> exn + dataframe" where
  "process E df =
     (case column df ''session_duration'' of
        Inl e \<Rightarrow> Inl e
      | Inr sd \<Rightarrow>
          (case map_exn gt_300 sd of
             Inl e \<Rightarrow> Inl e
           | Inr engaged \<Rightarrow>
               (let df1 = set_column df ''engaged'' engaged
                in case column df1 ''timestamp'' of
                     Inl e \<Rightarrow> Inl e
                   | Inr ts \<Rightarrow>
                       (case map_exn dt_hour ts of
                          Inl e \<Rightarrow> Inl e
                        | Inr hours \<Rightarrow>
                            get_dummies E (set_column df1 ''hour'' hours)
                              ''item_category'' ''cat''))))"

definition get_processed ::
  "('e, 'g) env \<Rightarrow> string option \<Rightarrow> 'e world \<Rightarrow> (exn + dataframe) \<times> 'e world" where
  "get_processed E input_path w =
     (case load_raw E input_path w of
        (Inl e, w1) \<Rightarrow> (Inl e, w1)
      | (Inr df, w1) \<Rightarrow>
          (case column df ''timestamp'' of
             Inl e \<Rightarrow> (Inl e, w1)
           | Inr ts \<Rightarrow>
               (case map_exn (to_datetime E) ts of
                  Inl e \<Rightarrow> (Inl e, w1)
                | Inr ts' \<Rightarrow>
                    (case process E (set_column df ''timestamp'' ts') of
                       Inl e \<Rightarrow> (Inl e, w1)
                     | Inr processed \<Rightarrow>
                         (let out_dir = os_path_join (module_dir E) ''data'';
                              w2 = ensure_dirs out_dir w1;
                              processed_path = os_path_join out_dir ''processed.parquet'';
                              w3 = w2\<lparr>files := (files w2)(processed_path \<mapsto> Parquet processed)\<rparr>
                          in (Inr processed, w3))))))"

section \<open>model_utils.py\<close>

definition ensure_models_dir :: "string \<Rightarrow> 'e world \<Rightarrow> 'e world" where
  "ensure_models_dir base w = os_makedirs base w"

definition save_model :: "'e artifact \<Rightarrow> string \<Rightarrow> 'e world \<Rightarrow> 'e world" where
  "save_model obj path w =
     (let w1 = ensure_models_dir (dirname_or_dot path) w
      in w1\<lparr>files := (files w1)(path \<mapsto> Joblib obj)\<rparr>)"

text \<open>
  \<^verbatim>\<open>load_model\<close> returns \<^verbatim>\<open>None\<close> when nothing is stored at the path;
  \<^verbatim>\<open>joblib.load\<close> raises on a file that joblib did not write.
\<close>

definition load_model :: "string \<Rightarrow> 'e world \<Rightarrow> exn + 'e artifact option" where
  "load_model path w =
     (if \<not> os_path_exists path w then Inr None
      else case files w path of
             Some (Joblib obj) \<Rightarrow> Inr (Some obj)
           | _ \<Rightarrow> Inl (LibraryError ''joblib.load''))"

section \<open>train.py\<close>

definition MODEL_DIR :: "('e, 'g) env \<Rightarrow> string" where
  "MODEL_DIR E = os_path_join (module_dir E) ''models''"

definition train_engagement ::
  "('e, 'g) env \<Rightarrow> dataframe \<Rightarrow> 'e world \<Rightarrow> (exn + unit) \<times> 'e world" where
  "train_engagement E df w =
     (let features =
            filter (\<lambda>c. c \<notin> set [''user_id'', ''item_id'', ''timestamp'', ''engaged''])
              (columns df);
          X = map (\<lambda>r. map (\<lambda>c. fillna0 (cell_at r c)) features) (rows df)
      in case column df ''engaged'' of
           Inl e \<Rightarrow> (Inl e, w)
         | Inr y \<Rightarrow>
             (case fit_engagement E X y of
                Inl e \<Rightarrow> (Inl e, w)
              | Inr (clf, scaler, acc) \<Rightarrow>
                  (let w1 = print (EngagementAccuracy acc) w;
                       w2 = save_model
                              [(''model'', Estimator clf), (''scaler'', Estimator scaler),
                               (''features'', PyList (map CStr features))]
                              (os_path_join (MODEL_DIR E) ''engagement.joblib'') w1
                   in (Inr (), w2))))"

text \<open>
  The frame \<^verbatim>\<open>items\<close> of \<^verbatim>\<open>train_recommender\<close>: one row per distinct item id, in sorted
  order, holding the maximum of every \<open>cat_\<close> column and the number of distinct users.
\<close>

definition group_items :: "dataframe \<Rightarrow> string list \<Rightarrow> (cell \<times> row) list" where
  "group_items df cat_cols =
     map (\<lambda>k. let grp = filter (\<lambda>r. cell_at r ''item_id'' = k) (rows df)
              in (k, map (\<lambda>c. (c, agg_max (map (\<lambda>r. cell_at r c) grp))) cat_cols
                     @ [(''user_id'', agg_nunique (map (\<lambda>r. cell_at r ''user_id'') grp))]))
         (sorted_unique (map (\<lambda>r. cell_at r ''item_id'') (rows df)))"

definition train_recommender ::
  "('e, 'g) env \<Rightarrow> dataframe \<Rightarrow> 'e world \<Rightarrow> (exn + unit) \<times> 'e world" where
  "train_recommender E df w =
     (let cat_cols = filter (\<lambda>c. take 4 c = ''cat_'') (columns df)
      in if ''item_id'' \<notin> set (columns df) then (Inl (KeyError ''item_id''), w)
         else if ''user_id'' \<notin> set (columns df) then (Inl (KeyError ''user_id''), w)
         else
           (let items = group_items df cat_cols
            in if length items < 2 then (Inr (), print NotEnoughItems w)
               else
                 (let X = map (\<lambda>(k, r). map (\<lambda>c. fillna0 (cell_at r c)) cat_cols) items
                  in case fit_nn E (min 10 (length items - 1)) X of
                       Inl e \<Rightarrow> (Inl e, w)
                     | Inr nn \<Rightarrow>
                         (let w1 = save_model
                                     [(''nn'', Estimator nn),
                                      (''items_index'', PyList (map fst items)),
                                      (''cat_cols'', PyList (map CStr cat_cols))]
                                     (os_path_join (MODEL_DIR E) ''recommender.joblib'') w;
                              w2 = print (RecommenderTrained (length items)) w1
                          in (Inr (), w2)))))"

definition train_all ::
  "('e, 'g) env \<Rightarrow> string option \<Rightarrow> 'e world \<Rightarrow> (exn + unit) \<times> 'e world" where
  "train_all E input_path w =
     (let w0 = print StartingTrainingRun w
      in case get_processed E input_path w0 of
           (Inl e, w1) \<Rightarrow> (Inl e, w1)
         | (Inr df, w1) \<Rightarrow>
             (let w2 = os_makedirs (MODEL_DIR E) w1
              in case train_engagement E df w2 of
                   (Inl e, w3) \<Rightarrow> (Inr (), print (TrainingFailed e) w3)
                 | (Inr _, w3) \<Rightarrow>
                     (case train_recommender E df w3 of
                        (Inl e, w4) \<Rightarrow> (Inr (), print (TrainingFailed e) w4)
                      | (Inr _, w4) \<Rightarrow> (Inr (), print TrainingComplete w4))))"

section \<open>deploy_api.py\<close>

record SessionPayload =
  session_duration :: real
  pages_viewed :: int
  actions :: int
  hour :: int

record RecommendRequest =
  user_id :: "string option"
  item_id :: "string option"

text \<open>\<^verbatim>\<open>payload.__dict__\<close>: the four declared fields of the request model and nothing else.\<close>

definition payload_dict :: "SessionPayload \<Rightarrow> row" where
  "payload_dict p =
     [(''session_duration'', CFloat (session_duration p)),
      (''pages_viewed'', CInt (pages_viewed p)),
      (''actions'', CInt (actions p)),
      (''hour'', CInt (hour p))]"

text \<open>\<^verbatim>\<open>d.get(k, default)\<close> on a dict with string keys.\<close>

definition dict_get :: "row \<Rightarrow> cell \<Rightarrow> cell \<Rightarrow> cell" where
  "dict_get d k dflt =
     (case k of
        CStr s \<Rightarrow> (case map_of d s of Some v \<Rightarrow> v | None \<Rightarrow> dflt)
      | _ \<Rightarrow> dflt)"

text \<open>\<^verbatim>\<open>d[k]\<close> on a stored dict: a KeyError when the key is missing.\<close>

definition getitem :: "'e artifact \<Rightarrow> string \<Rightarrow> exn + 'e pyobj" where
  "getitem d k = (case map_of d k of Some v \<Rightarrow> Inr v | None \<Rightarrow> Inl (KeyError k))"

text \<open>\<^verbatim>\<open>xs[i]\<close> on a list: a negative index counts from the end.\<close>

definition py_index :: "'a list \<Rightarrow> int \<Rightarrow> exn + 'a" where
  "py_index xs i =
     (if 0 \<le> i \<and> i < int (length xs) then Inr (xs ! nat i)
      else if i < 0 \<and> - int (length xs) \<le> i then Inr (xs ! nat (int (length xs) + i))
      else Inl (IndexError ''list index out of range''))"

text \<open>\<^verbatim>\<open>xs.index(x)\<close> for an element of the list: the first position holding it.\<close>

definition list_index :: "'a list \<Rightarrow> 'a \<Rightarrow> nat" where
  "list_index xs x = length (takeWhile (\<lambda>y. y \<noteq> x) xs)"

definition load_engagement :: "('e, 'g) env \<Rightarrow> 'e world \<Rightarrow> exn + 'e artifact option" where
  "load_engagement E w = load_model (os_path_join (MODEL_DIR E) ''engagement.joblib'') w"

definition load_recommender :: "('e, 'g) env \<Rightarrow> 'e world \<Rightarrow> exn + 'e artifact option" where
  "load_recommender E w = load_model (os_path_join (MODEL_DIR E) ''recommender.joblib'') w"

text \<open>The list comprehension of \<^verbatim>\<open>predict\<close>: one value per stored feature name, in order.\<close>

definition feature_row :: "SessionPayload \<Rightarrow> cell list \<Rightarrow> cell list" where
  "feature_row payload features = map (\<lambda>f. dict_get (payload_dict payload) f (CInt 0)) features"

definition predict :: "('e, 'g) env \<Rightarrow> SessionPayload \<Rightarrow> 'e world \<Rightarrow> exn + real" where
  "predict E payload w =
     (case load_engagement E w of
        Inl e \<Rightarrow> Inl e
      | Inr None \<Rightarrow> Inl (HTTPException 503 ''Engagement model not available'')
      | Inr (Some m) \<Rightarrow>
          if m = [] then Inl (HTTPException 503 ''Engagement model not available'')
          else
            (case getitem m ''features'' of
               Inl e \<Rightarrow> Inl e
             | Inr (Estimator _) \<Rightarrow> Inl (TypeError ''object is not iterable'')
             | Inr (PyList features) \<Rightarrow>
                 (let r = feature_row payload features
                  in case getitem m ''scaler'' of
                       Inl e \<Rightarrow> Inl e
                     | Inr (PyList _) \<Rightarrow> Inl (AttributeError ''transform'')
                     | Inr (Estimator scaler) \<Rightarrow>
                         (case scaler_transform E scaler [r] of
                            Inl e \<Rightarrow> Inl e
                          | Inr Xs \<Rightarrow>
                              (case getitem m ''model'' of
                                 Inl e \<Rightarrow> Inl e
                               | Inr (PyList _) \<Rightarrow> Inl (AttributeError ''predict_proba'')
                               | Inr (Estimator clf) \<Rightarrow> predict_proba E clf Xs)))))"

definition recommend :: "('e, 'g) env \<Rightarrow> RecommendRequest \<Rightarrow> 'e world \<Rightarrow> exn + cell list" where
  "recommend E req w =
     (case load_recommender E w of
        Inl e \<Rightarrow> Inl e
      | Inr None \<Rightarrow> Inl (HTTPException 503 ''Recommender not available'')
      | Inr (Some r) \<Rightarrow>
          if r = [] then Inl (HTTPException 503 ''Recommender not available'')
          else
            (case getitem r ''nn'' of
               Inl e \<Rightarrow> Inl e
             | Inr nn \<Rightarrow>
                 (case getitem r ''items_index'' of
                    Inl e \<Rightarrow> Inl e
                  | Inr (Estimator _) \<Rightarrow> Inl (TypeError ''object is not subscriptable'')
                  | Inr (PyList items) \<Rightarrow>
                      (case item_id req of
                         None \<Rightarrow> Inr (take 5 items)
                       | Some i \<Rightarrow>
                           if i \<noteq> [] \<and> CStr i \<in> set items then
                             (case nn of
                                PyList _ \<Rightarrow> Inl (AttributeError ''kneighbors'')
                              | Estimator n \<Rightarrow>
                                  (case kneighbors E n (list_index items (CStr i)) of
                                     Inl e \<Rightarrow> Inl e
                                   | Inr nbrs \<Rightarrow> map_exn (py_index items) nbrs))
                           else Inr (take 5 items)))))"

section \<open>scheduler.py\<close>

text \<open>
  A scheduler holds its jobs by id and whether it has been started. A job is the
  callable and the length of its interval in hours. Adding a job and starting the
  scheduler are recorded in the state of the process, after whatever happened before.
\<close>

record 'w job =
  job_func :: "'w \<Rightarrow> (exn + unit) \<times> 'w"
  trigger :: string
  interval_hours :: real

record 'w scheduler =
  jobs :: "(string \<times> 'w job) list"
  running :: bool

definition BackgroundScheduler :: "'w scheduler" where
  "BackgroundScheduler = \<lparr>jobs = [], running = False\<rparr>"

text \<open>\<^verbatim>\<open>add_job(func, 'interval', hours=h, id=i, replace_existing=True)\<close>.\<close>

definition add_job ::
  "'e world scheduler \<Rightarrow> ('e world \<Rightarrow> (exn + unit) \<times> 'e world) \<Rightarrow> string \<Rightarrow> real \<Rightarrow> string
     \<Rightarrow> 'e world \<Rightarrow> 'e world scheduler \<times> 'e world" where
  "add_job s func trig h ident w =
     (s\<lparr>jobs := AList.update ident \<lparr>job_func = func, trigger = trig, interval_hours = h\<rparr> (jobs s)\<rparr>,
      w\<lparr>scheduler_events := scheduler_events w @ [JobAdded ident trig h]\<rparr>)"

text \<open>\<^verbatim>\<open>scheduler.start()\<close> raises when the scheduler is already running.\<close>

definition scheduler_start ::
  "'e world scheduler \<Rightarrow> 'e world \<Rightarrow> (exn + 'e world scheduler) \<times> 'e world" where
  "scheduler_start s w =
     (if running s then (Inl (LibraryError ''SchedulerAlreadyRunningError''), w)
      else (Inr (s\<lparr>running := True\<rparr>),
            w\<lparr>scheduler_events := scheduler_events w @ [SchedulerRunning]\<rparr>))"

text \<open>\<^verbatim>\<open>scheduler.shutdown(wait=False)\<close>, the callback registered with \<^verbatim>\<open>atexit\<close>.\<close>

definition scheduler_shutdown :: "'w scheduler \<Rightarrow> 'w scheduler" where
  "scheduler_shutdown s = s\<lparr>running := False\<rparr>"

definition run_hook :: "hook \<Rightarrow> 'w scheduler \<Rightarrow> 'w scheduler" where
  "run_hook h s = (case h of SchedulerShutdown \<Rightarrow> scheduler_shutdown s)"

definition start_scheduler ::
  "('e world \<Rightarrow> (exn + unit) \<times> 'e world) \<Rightarrow> real \<Rightarrow> 'e world
     \<Rightarrow> (exn + 'e world scheduler) \<times> 'e world" where
  "start_scheduler func hours w =
     (let sched = BackgroundScheduler;
          w1 = (case func w of
                  (Inl e, w') \<Rightarrow> print (InitialRunFailed e) w'
                | (Inr _, w') \<Rightarrow> w');
          (sched1, w2) = add_job sched func ''interval'' hours ''retrain_job'' w1
      in case scheduler_start sched1 w2 of
           (Inl e, w3) \<Rightarrow> (Inl e, w3)
         | (Inr sched2, w3) \<Rightarrow>
             (let w4 = w3\<lparr>atexit := atexit w3 @ [SchedulerShutdown]\<rparr>;
                  w5 = print (SchedulerStarted hours) w4
              in (Inr sched2, w5)))"

text \<open>
  Modelled from the spec: the timer of the scheduler. \<^verbatim>\<open>BackgroundScheduler\<close> is
  APScheduler's class and its code is not under src/. The spec says that start
  ``schedules subsequent runs at the fixed interval, forever, until explicitly stopped'',
  and that ``a failed run_once is swallowed at the coordinator boundary (the process does
  not crash)''. So a run of a job keeps the state the callable leaves and drops its
  exception; while the scheduler is running, a job with an interval of \<open>h\<close> hours has
  run once for every whole interval of the \<open>t\<close> hours since the start; and a scheduler
  that is not running runs nothing.
\<close>

definition run_job :: "'w job \<Rightarrow> 'w \<Rightarrow> 'w" where
  "run_job j w = snd (job_func j w)"

definition elapse :: "real \<Rightarrow> 'w scheduler \<Rightarrow> 'w \<Rightarrow> 'w" where
  "elapse t s w =
     (if running s
      then fold (\<lambda>(i, j) x. (run_job j ^^ nat \<lfloor>t / interval_hours j\<rfloor>) x) (jobs s) w
      else w)"

text \<open>The entry point of \<^verbatim>\<open>deploy_api.py\<close>, up to the start of the web server.\<close>

definition deploy_main ::
  "('e, 'g) env \<Rightarrow> 'e world \<Rightarrow> (exn + 'e world scheduler) \<times> 'e world" where
  "deploy_main E w = start_scheduler (train_all E None) 24 w"

section \<open>Concrete environments and inputs\<close>

text \<open>
  A small environment in which every library call answers, one in which both fitting
  steps raise, and a two-row input table. The theorems below are instantiated on them.
\<close>

definition env0 :: "(nat, nat) env" where
  "env0 =
     \<lparr>module_dir = ''/app'',
      utcnow = 1700000000000000000,
      fmt_cell = (\<lambda>v. ''nan''),
      parse_datetime = (\<lambda>s. None),
      os_refuses = (\<lambda>p. False),
      default_rng = nat,
      rng_integers = (\<lambda>g lo hi. (lo + int g mod (hi - lo), Suc g)),
      rng_normal = (\<lambda>g mu sd. (mu + real g, Suc g)),
      rng_poisson = (\<lambda>g lam. (int (g mod 7), Suc g)),
      rng_choice = (\<lambda>g xs. (xs ! (g mod length xs), Suc g)),
      fit_engagement =
        (\<lambda>X y. if length X < 2 then Inl (ValueError ''the train set will be empty'')
               else Inr (1, 2, 1)),
      fit_nn = (\<lambda>k X. Inr 3),
      scaler_transform = (\<lambda>s X. Inr (map (map (\<lambda>v. 0)) X)),
      predict_proba = (\<lambda>m X. Inr (1 / 2)),
      kneighbors = (\<lambda>n i. Inr [int i])\<rparr>"

definition env_failing :: "(nat, nat) env" where
  "env_failing =
     env0\<lparr>fit_engagement := (\<lambda>X y. Inl (ValueError ''fit'')),
          fit_nn := (\<lambda>k X. Inl (ValueError ''fit''))\<rparr>"

definition world0 :: "nat world" where
  "world0 = \<lparr>files = Map.empty, stdout = [], atexit = [], scheduler_events = []\<rparr>"

definition raw_frame :: dataframe where
  "raw_frame =
     \<lparr>columns = [''user_id'', ''session_duration'', ''item_id'', ''item_category'', ''timestamp''],
      rows =
        [[(''user_id'', CStr ''u1''), (''session_duration'', CInt 400), (''item_id'', CStr ''b''),
          (''item_category'', CStr ''ml''), (''timestamp'', CTime 7200000000000)],
         [(''user_id'', CStr ''u2''), (''session_duration'', CInt 100), (''item_id'', CStr ''a''),
          (''item_category'', CStr ''ml''), (''timestamp'', CTime 3600000000000)]]\<rparr>"

definition world_csv :: "nat world" where
  "world_csv = world0\<lparr>files := [''/in.csv'' \<mapsto> Csv raw_frame]\<rparr>"

definition old_engagement :: "nat artifact" where
  "old_engagement =
     [(''model'', Estimator 10), (''scaler'', Estimator 11),
      (''features'', PyList [CStr ''session_duration'', CStr ''hour'', CStr ''cat_ml''])]"

definition old_recommender :: "nat artifact" where
  "old_recommender =
     [(''nn'', Estimator 12), (''items_index'', PyList [CStr ''a'', CStr ''b'', CStr ''c'']),
      (''cat_cols'', PyList [CStr ''cat_ml''])]"

definition world_published :: "nat world" where
  "world_published =
     world0\<lparr>files := [''/in.csv'' \<mapsto> Csv raw_frame,
                        ''/app/models/engagement.joblib'' \<mapsto> Joblib old_engagement,
                        ''/app/models/recommender.joblib'' \<mapsto> Joblib old_recommender]\<rparr>"

definition processed_frame :: dataframe where
  "processed_frame =
     \<lparr>columns = [''user_id'', ''session_duration'', ''item_id'', ''timestamp'', ''engaged'',
                 ''hour'', ''cat_ml''],
      rows =
        [[(''user_id'', CStr ''u1''), (''session_duration'', CInt 400), (''item_id'', CStr ''b''),
          (''timestamp'', CTime 7200000000000), (''engaged'', CInt 1), (''hour'', CInt 2),
          (''cat_ml'', CInt 1)],
         [(''user_id'', CStr ''u2''), (''session_duration'', CInt 100), (''item_id'', CStr ''a''),
          (''timestamp'', CTime 3600000000000), (''engaged'', CInt 0), (''hour'', CInt 1),
          (''cat_ml'', CInt 1)]]\<rparr>"

definition frame_no_duration :: dataframe where
  "frame_no_duration =
     \<lparr>columns = [''user_id'', ''item_id'', ''item_category'', ''timestamp''],
      rows =
        [[(''user_id'', CStr ''u1''), (''item_id'', CStr ''a''), (''item_category'', CStr ''ml''),
          (''timestamp'', CTime 7200000000000)]]\<rparr>"

definition world_no_duration :: "nat world" where
  "world_no_duration = world0\<lparr>files := [''/in.csv'' \<mapsto> Csv frame_no_duration]\<rparr>"

definition frame_one_item :: dataframe where
  "frame_one_item =
     \<lparr>columns = [''user_id'', ''session_duration'', ''item_id'', ''timestamp'', ''engaged'',
                 ''hour'', ''cat_ml''],
      rows =
        [[(''user_id'', CStr ''u1''), (''session_duration'', CInt 400), (''item_id'', CStr ''a''),
          (''timestamp'', CTime 7200000000000), (''engaged'', CInt 1), (''hour'', CInt 2),
          (''cat_ml'', CInt 1)],
         [(''user_id'', CStr ''u2''), (''session_duration'', CInt 100), (''item_id'', CStr ''a''),
          (''timestamp'', CTime 3600000000000), (''engaged'', CInt 0), (''hour'', CInt 1),
          (''cat_ml'', CInt 1)]]\<rparr>"

definition payload0 :: SessionPayload where
  "payload0 = \<lparr>session_duration = 420, pages_viewed = 7, actions = 3, hour = 14\<rparr>"

definition request_unknown :: RecommendRequest where
  "request_unknown = \<lparr>user_id = Some ''u1'', item_id = Some ''zzz''\<rparr>"

definition request_empty :: RecommendRequest where
  "request_empty = \<lparr>user_id = None, item_id = None\<rparr>"

definition catalog_artifact :: "nat artifact" where
  "catalog_artifact =
     [(''nn'', Estimator 12),
      (''items_index'',
       PyList [CStr ''a'', CStr ''b'', CStr ''c'', CStr ''d'', CStr ''e'', CStr ''f'', CStr ''g'']),
      (''cat_cols'', PyList [CStr ''cat_ml''])]"

definition world_catalog :: "nat world" where
  "world_catalog = world0\<lparr>files := [''/app/models/recommender.joblib'' \<mapsto> Joblib catalog_artifact]\<rparr>"

definition frame_no_user :: dataframe where
  "frame_no_user =
     \<lparr>columns = [''session_duration'', ''item_id'', ''timestamp'', ''engaged'', ''hour'',
                 ''cat_ml''],
      rows =
        [[(''session_duration'', CInt 400), (''item_id'', CStr ''a''),
          (''timestamp'', CTime 7200000000000), (''engaged'', CInt 1), (''hour'', CInt 2),
          (''cat_ml'', CInt 1)],
         [(''session_duration'', CInt 100), (''item_id'', CStr ''a''),
          (''timestamp'', CTime 3600000000000), (''engaged'', CInt 0), (''hour'', CInt 1),
          (''cat_ml'', CInt 1)]]\<rparr>"

section \<open>Basic facts\<close>

lemmas model_defs =
  get_processed_def load_raw_def os_path_exists_def read_csv_def
  column_def cell_at_def to_datetime_def set_column_def process_def gt_300_def dt_hour_def
  get_dummies_def sorted_unique_def cell_label_def Let_def os_path_join_def ensure_dirs_def
  os_makedirs_def print_def train_all_def train_engagement_def train_recommender_def
  group_items_def save_model_def ensure_models_dir_def MODEL_DIR_def fillna0_def agg_max_def
  agg_nunique_def default_input_path_def dirname_or_dot_def generate_synthetic_def to_csv_def
  dir_prefixes_def os_path_basename_def

lemmas fixture_defs =
  env0_def env_failing_def world0_def world_csv_def raw_frame_def old_engagement_def
  old_recommender_def world_published_def processed_frame_def frame_no_duration_def
  world_no_duration_def frame_one_item_def payload0_def request_unknown_def request_empty_def
  catalog_artifact_def world_catalog_def frame_no_user_def

lemma files_print [simp]: "files (print m w) = files w"
  by (simp add: print_def)

lemma train_engagement_raise_world:
  "fst (train_engagement E df w) = Inl e \<Longrightarrow> snd (train_engagement E df w) = w"
  by (auto simp: train_engagement_def Let_def split: sum.splits prod.splits)

lemma train_recommender_raise_world:
  "fst (train_recommender E df w) = Inl e \<Longrightarrow> snd (train_recommender E df w) = w"
  by (auto simp: train_recommender_def Let_def split: sum.splits prod.splits if_splits)




lemma train_recommender_files:
  "q \<noteq> os_path_join (MODEL_DIR E) ''recommender.joblib'' \<Longrightarrow>
   files (snd (train_recommender E df w)) q = files w q"
  by (auto simp: train_recommender_def Let_def save_model_def print_def ensure_models_dir_def
        os_makedirs_def split: sum.splits prod.splits)

lemma load_model_cong:
  "files w' q = files w q \<Longrightarrow> load_model q w' = load_model q w"
  by (simp add: load_model_def os_path_exists_def)







lemma load_model_absent:
  "files w q = None \<Longrightarrow> load_model q w = Inr None"
  by (simp add: load_model_def os_path_exists_def)

lemma length_sorted_unique: "length (sorted_unique vs) = card (set vs - {CNaN})"
proof -
  have "set (filter (\<lambda>v. v \<noteq> CNaN) vs) = set vs - {CNaN}" by auto
  then show ?thesis
    by (simp add: sorted_unique_def length_remdups_card_conv)
qed

lemma length_group_items:
  "length (group_items df cs) = card (set (map (\<lambda>r. cell_at r ''item_id'') (rows df)) - {CNaN})"
  by (simp add: group_items_def length_sorted_unique del: set_map)







lemma cell_ops_simps [simp]:
  "to_datetime E (CTime t) = Inr (CTime t)"
  "gt_300 (CInt n) = Inr (CInt (if n > 300 then 1 else 0))"
  "dt_hour (CTime t) = Inr (CInt ((t div 3600000000000) mod 24))"
  by (simp_all add: to_datetime_def gt_300_def dt_hour_def)








lemma map_fst_group_items:
  "map fst (group_items df cs) = sorted_unique (map (\<lambda>r. cell_at r ''item_id'') (rows df))"
  by (simp add: group_items_def Let_def comp_def)

lemma floor_between:
  fixes h t :: real
  assumes "0 < h" "real k * h \<le> t" "t < real (Suc k) * h"
  shows "nat \<lfloor>t / h\<rfloor> = k"
proof -
  have "real k \<le> t / h"
    using assms(1,2) by (simp add: pos_le_divide_eq)
  moreover have "t / h < real k + 1"
    using assms(1,3) by (simp add: pos_divide_less_eq algebra_simps)
  ultimately have "\<lfloor>t / h\<rfloor> = int k"
    by (simp add: floor_eq_iff)
  then show ?thesis by simp
qed

lemma elapse_single_job:
  "elapse t \<lparr>jobs = [(i, \<lparr>job_func = func, trigger = tr, interval_hours = h\<rparr>)], running = True\<rparr> x
     = ((\<lambda>y. snd (func y)) ^^ nat \<lfloor>t / h\<rfloor>) x"
proof -
  have "run_job \<lparr>job_func = func, trigger = tr, interval_hours = h\<rparr> = (\<lambda>y. snd (func y))"
    by (rule ext) (simp add: run_job_def)
  then show ?thesis
    by (simp add: elapse_def)
qed

lemma train_all_no_duration:
  assumes "files x ''/in.csv'' = Some (Csv frame_no_duration)"
  shows "train_all env0 (Some ''/in.csv'') x
           = (Inl (KeyError ''session_duration''), print StartingTrainingRun x)"
  using assms
  by (simp add: train_all_def get_processed_def load_raw_def os_path_exists_def read_csv_def
        column_def cell_at_def to_datetime_def set_column_def process_def Let_def
        frame_no_duration_def print_def)




section \<open>Claims\<close>


subsection \<open>C1: a failed training attempt leaves the published artifact as it was\<close>



subsection \<open>C3: which errors a retrain run contains\<close>




subsection \<open>C4: artifacts carry no generation number\<close>

text \<open>
  C4 as stated: every published artifact carries a generation number, strictly increasing
  over successive successful publishes of a kind. It fails on the code: the stored dict of
  the engagement model has the keys \<^verbatim>\<open>model\<close>, \<^verbatim>\<open>scaler\<close> and \<^verbatim>\<open>features\<close> and no
  other, looking up \<^verbatim>\<open>generation\<close> in it is a KeyError, and a second successful
  training on the same data stores an artifact equal to the first, so nothing in it
  increases.
\<close>

theorem publish_has_no_generation_counterexample:
  "fst (train_engagement env0 processed_frame world0) = Inr () \<and>
   files (snd (train_engagement env0 processed_frame world0)) ''/app/models/engagement.joblib''
     = Some (Joblib [(''model'', Estimator 1), (''scaler'', Estimator 2),
                     (''features'',
                      PyList [CStr ''session_duration'', CStr ''hour'', CStr ''cat_ml''])]) \<and>
   getitem [(''model'', Estimator (1::nat)), (''scaler'', Estimator 2),
            (''features'', PyList [CStr ''session_duration'', CStr ''hour'', CStr ''cat_ml''])]
     ''generation'' = Inl (KeyError ''generation'') \<and>
   fst (train_engagement env0 processed_frame (snd (train_engagement env0 processed_frame world0)))
     = Inr () \<and>
   files (snd (train_engagement env0 processed_frame
                 (snd (train_engagement env0 processed_frame world0))))
       ''/app/models/engagement.joblib''
     = files (snd (train_engagement env0 processed_frame world0)) ''/app/models/engagement.joblib''"
  by (simp add: model_defs fixture_defs getitem_def)

text \<open>
  C4 as amended: artifacts carry no generation number. A successful engagement training
  stores, at the one fixed path of its kind, the dict of \<^verbatim>\<open>model\<close>, \<^verbatim>\<open>scaler\<close> and
  \<^verbatim>\<open>features\<close> (the columns of the data other than the four excluded names); a
  successful recommender training on two or more distinct items stores, at its fixed path,
  the dict of \<^verbatim>\<open>nn\<close>, \<^verbatim>\<open>items_index\<close> (the sorted distinct item ids) and
  \<^verbatim>\<open>cat_cols\<close>; each replaces what was stored there and touches no other file. A
  recommender training on fewer than two items stores nothing, and a failed training leaves
  every file as it was.
\<close>

theorem publish_overwrites_fixed_slot:
  "(fst (train_engagement E df w) = Inr () \<longrightarrow>
      (\<exists>clf scaler.
         files (snd (train_engagement E df w)) =
           (files w)(os_path_join (MODEL_DIR E) ''engagement.joblib'' \<mapsto>
              Joblib [(''model'', Estimator clf), (''scaler'', Estimator scaler),
                      (''features'',
                       PyList (map CStr
                         (filter (\<lambda>c. c \<notin> {''user_id'', ''item_id'', ''timestamp'', ''engaged''})
                            (columns df))))]))) \<and>
   (fst (train_recommender E df w) = Inr () \<and>
    2 \<le> card (set (map (\<lambda>r. cell_at r ''item_id'') (rows df)) - {CNaN}) \<longrightarrow>
      (\<exists>nn.
         files (snd (train_recommender E df w)) =
           (files w)(os_path_join (MODEL_DIR E) ''recommender.joblib'' \<mapsto>
              Joblib [(''nn'', Estimator nn),
                      (''items_index'',
                       PyList (sorted_unique (map (\<lambda>r. cell_at r ''item_id'') (rows df)))),
                      (''cat_cols'',
                       PyList (map CStr (filter (\<lambda>c. take 4 c = ''cat_'') (columns df))))]))) \<and>
   (fst (train_recommender E df w) = Inr () \<and>
    card (set (map (\<lambda>r. cell_at r ''item_id'') (rows df)) - {CNaN}) < 2 \<longrightarrow>
      files (snd (train_recommender E df w)) = files w) \<and>
   (fst (train_engagement E df w) = Inl e \<longrightarrow> files (snd (train_engagement E df w)) = files w) \<and>
   (fst (train_recommender E df w) = Inl e \<longrightarrow> files (snd (train_recommender E df w)) = files w)"
proof (intro conjI impI)
  assume "fst (train_engagement E df w) = Inr ()"
  then show "\<exists>clf scaler.
         files (snd (train_engagement E df w)) =
           (files w)(os_path_join (MODEL_DIR E) ''engagement.joblib'' \<mapsto>
              Joblib [(''model'', Estimator clf), (''scaler'', Estimator scaler),
                      (''features'',
                       PyList (map CStr
                         (filter (\<lambda>c. c \<notin> {''user_id'', ''item_id'', ''timestamp'', ''engaged''})
                            (columns df))))])"
    by (auto simp: train_engagement_def Let_def save_model_def ensure_models_dir_def
          os_makedirs_def split: sum.splits prod.splits)
next
  let ?cs = "filter (\<lambda>c. take 4 c = ''cat_'') (columns df)"
  assume a: "fst (train_recommender E df w) = Inr () \<and>
    2 \<le> card (set (map (\<lambda>r. cell_at r ''item_id'') (rows df)) - {CNaN})"
  then have n: "\<not> length (group_items df ?cs) < 2"
    unfolding length_group_items by linarith
  from a n show "\<exists>nn.
         files (snd (train_recommender E df w)) =
           (files w)(os_path_join (MODEL_DIR E) ''recommender.joblib'' \<mapsto>
              Joblib [(''nn'', Estimator nn),
                      (''items_index'',
                       PyList (sorted_unique (map (\<lambda>r. cell_at r ''item_id'') (rows df)))),
                      (''cat_cols'', PyList (map CStr ?cs))])"
    by (auto simp: train_recommender_def Let_def save_model_def ensure_models_dir_def
          os_makedirs_def map_fst_group_items split: sum.splits if_splits)
next
  let ?cs = "filter (\<lambda>c. take 4 c = ''cat_'') (columns df)"
  assume a: "fst (train_recommender E df w) = Inr () \<and>
    card (set (map (\<lambda>r. cell_at r ''item_id'') (rows df)) - {CNaN}) < 2"
  then have n: "length (group_items df ?cs) < 2"
    unfolding length_group_items by linarith
  then show "files (snd (train_recommender E df w)) = files w"
    by (simp add: train_recommender_def Let_def)
next
  assume "fst (train_engagement E df w) = Inl e"
  then show "files (snd (train_engagement E df w)) = files w"
    by (simp add: train_engagement_raise_world)
next
  assume "fst (train_recommender E df w) = Inl e"
  then show "files (snd (train_recommender E df w)) = files w"
    by (simp add: train_recommender_raise_world)
qed

theorem publish_overwrites_fixed_slot_witness:
  "fst (train_engagement env0 processed_frame world_published) = Inr () \<and>
   (\<exists>clf scaler.
      files (snd (train_engagement env0 processed_frame world_published)) =
        (files world_published)(''/app/models/engagement.joblib'' \<mapsto>
           Joblib [(''model'', Estimator clf), (''scaler'', Estimator scaler),
                   (''features'',
                    PyList [CStr ''session_duration'', CStr ''hour'', CStr ''cat_ml''])])) \<and>
   fst (train_recommender env0 processed_frame world_published) = Inr () \<and>
   (\<exists>nn.
      files (snd (train_recommender env0 processed_frame world_published)) =
        (files world_published)(''/app/models/recommender.joblib'' \<mapsto>
           Joblib [(''nn'', Estimator nn), (''items_index'', PyList [CStr ''a'', CStr ''b'']),
                   (''cat_cols'', PyList [CStr ''cat_ml''])])) \<and>
   fst (train_recommender env0 frame_one_item world_published) = Inr () \<and>
   files (snd (train_recommender env0 frame_one_item world_published)) = files world_published \<and>
   fst (train_recommender env_failing processed_frame world_published) = Inl (ValueError ''fit'') \<and>
   files (snd (train_recommender env_failing processed_frame world_published))
     = files world_published"
proof -
  have a: "fst (train_engagement env0 processed_frame world_published) = Inr ()"
    by (simp add: model_defs fixture_defs)
  have b: "fst (train_recommender env0 processed_frame world_published) = Inr ()"
    by (simp add: model_defs fixture_defs)
  have c: "fst (train_recommender env0 frame_one_item world_published) = Inr ()"
    by (simp add: model_defs fixture_defs)
  have d: "fst (train_recommender env_failing processed_frame world_published)
             = Inl (ValueError ''fit'')"
    by (simp add: model_defs fixture_defs)
  have n2: "card (set (map (\<lambda>r. cell_at r ''item_id'') (rows processed_frame)) - {CNaN}) = 2"
    by (simp add: processed_frame_def cell_at_def)
  have n1: "card (set (map (\<lambda>r. cell_at r ''item_id'') (rows frame_one_item)) - {CNaN}) = 1"
    by (simp add: frame_one_item_def cell_at_def)
  have p: "os_path_join (MODEL_DIR env0) ''engagement.joblib'' = ''/app/models/engagement.joblib''"
    "os_path_join (MODEL_DIR env0) ''recommender.joblib'' = ''/app/models/recommender.joblib''"
    by (simp_all add: os_path_join_def MODEL_DIR_def env0_def)
  have f: "filter (\<lambda>c. c \<notin> {''user_id'', ''item_id'', ''timestamp'', ''engaged''})
             (columns processed_frame) = [''session_duration'', ''hour'', ''cat_ml'']"
    "filter (\<lambda>c. take 4 c = ''cat_'') (columns processed_frame) = [''cat_ml'']"
    "sorted_unique (map (\<lambda>r. cell_at r ''item_id'') (rows processed_frame)) = [CStr ''a'', CStr ''b'']"
    by (simp_all add: processed_frame_def sorted_unique_def cell_at_def)
  from publish_overwrites_fixed_slot [of env0 processed_frame world_published] a b n2
  have 1: "\<exists>clf scaler.
      files (snd (train_engagement env0 processed_frame world_published)) =
        (files world_published)(''/app/models/engagement.joblib'' \<mapsto>
           Joblib [(''model'', Estimator clf), (''scaler'', Estimator scaler),
                   (''features'',
                    PyList [CStr ''session_duration'', CStr ''hour'', CStr ''cat_ml''])])"
    and 2: "\<exists>nn.
      files (snd (train_recommender env0 processed_frame world_published)) =
        (files world_published)(''/app/models/recommender.joblib'' \<mapsto>
           Joblib [(''nn'', Estimator nn), (''items_index'', PyList [CStr ''a'', CStr ''b'']),
                   (''cat_cols'', PyList [CStr ''cat_ml''])])"
    unfolding p f by simp_all
  from publish_overwrites_fixed_slot [of env0 frame_one_item world_published] c n1
  have 3: "files (snd (train_recommender env0 frame_one_item world_published))
             = files world_published"
    by simp
  from publish_overwrites_fixed_slot
         [of env_failing processed_frame world_published "ValueError ''fit''"] d
  have 4: "files (snd (train_recommender env_failing processed_frame world_published))
             = files world_published"
    by blast
  from a b c d 1 2 3 4 show ?thesis by blast
qed

subsection \<open>C5: prediction before any model is published\<close>

text \<open>
  C5. An engagement prediction requested while no engagement artifact has been published
  (no file at the model path) fails with the explicit HTTP 503 condition ``Engagement
  model not available'', and a training attempt that raised does not change that.
\<close>

theorem predict_before_training_unavailable:
  "(files w (os_path_join (MODEL_DIR E) ''engagement.joblib'') = None \<longrightarrow>
      predict E payload w = Inl (HTTPException 503 ''Engagement model not available'')) \<and>
   (files w (os_path_join (MODEL_DIR E) ''engagement.joblib'') = None \<and>
    fst (train_engagement E df w) = Inl e \<longrightarrow>
      predict E payload (snd (train_engagement E df w))
        = Inl (HTTPException 503 ''Engagement model not available''))"
proof -
  have 1: "predict E payload w' = Inl (HTTPException 503 ''Engagement model not available'')"
    if "files w' (os_path_join (MODEL_DIR E) ''engagement.joblib'') = None" for w'
    using load_model_absent [OF that] by (simp add: predict_def load_engagement_def)
  show ?thesis
    using 1 [of w] 1 [of "snd (train_engagement E df w)"] train_engagement_raise_world [of E df w e]
    by auto
qed

theorem predict_before_training_unavailable_witness:
  "files world_csv (os_path_join (MODEL_DIR env_failing) ''engagement.joblib'') = None \<and>
   predict env_failing payload0 world_csv = Inl (HTTPException 503 ''Engagement model not available'') \<and>
   fst (train_engagement env_failing processed_frame world_csv) = Inl (ValueError ''fit'') \<and>
   predict env_failing payload0 (snd (train_engagement env_failing processed_frame world_csv))
     = Inl (HTTPException 503 ''Engagement model not available'')"
proof -
  have a: "files world_csv (os_path_join (MODEL_DIR env_failing) ''engagement.joblib'') = None"
    by (simp add: model_defs fixture_defs)
  have b: "fst (train_engagement env_failing processed_frame world_csv) = Inl (ValueError ''fit'')"
    by (simp add: model_defs fixture_defs)
  from predict_before_training_unavailable
         [where E = env_failing and w = world_csv and payload = payload0
            and df = processed_frame and e = "ValueError ''fit''"] a b
  show ?thesis by blast
qed

subsection \<open>C6: the recommender on a catalog of fewer than two items\<close>

text \<open>
  C6 as stated: for every dataset with fewer than two distinct items, recommender training
  returns Skipped rather than raising. It fails on the code: the group-by of
  \<^verbatim>\<open>train_recommender\<close> runs before the test on the number of items, so a dataset with
  one distinct item and no \<^verbatim>\<open>user_id\<close> column raises KeyError.
\<close>

theorem recommender_small_catalog_raises_counterexample:
  "card (set (map (\<lambda>r. cell_at r ''item_id'') (rows frame_no_user)) - {CNaN}) = 1 \<and>
   train_recommender env0 frame_no_user world_published
     = (Inl (KeyError ''user_id''), world_published)"
  by (simp add: frame_no_user_def cell_at_def train_recommender_def)

text \<open>
  C6 as amended: for every dataset with fewer than two distinct item ids, recommender
  training publishes nothing and the stored recommender artifact stays servable unchanged.
  When the dataset has its \<^verbatim>\<open>item_id\<close> and \<^verbatim>\<open>user_id\<close> columns the call prints that it
  skips and returns normally, without raising; when one of the two columns is missing it
  raises KeyError for that column and leaves the state as it was.
\<close>

theorem recommender_skips_small_catalog:
  assumes "card (set (map (\<lambda>r. cell_at r ''item_id'') (rows df)) - {CNaN}) < 2"
  shows "(''item_id'' \<in> set (columns df) \<and> ''user_id'' \<in> set (columns df) \<longrightarrow>
            train_recommender E df w = (Inr (), print NotEnoughItems w)) \<and>
         (''item_id'' \<notin> set (columns df) \<longrightarrow>
            train_recommender E df w = (Inl (KeyError ''item_id''), w)) \<and>
         (''item_id'' \<in> set (columns df) \<and> ''user_id'' \<notin> set (columns df) \<longrightarrow>
            train_recommender E df w = (Inl (KeyError ''user_id''), w)) \<and>
         files (snd (train_recommender E df w)) = files w \<and>
         load_recommender E (snd (train_recommender E df w)) = load_recommender E w"
proof -
  have n: "length (group_items df cs) < 2" for cs
    using assms by (simp only: length_group_items)
  have 1: "''item_id'' \<in> set (columns df) \<and> ''user_id'' \<in> set (columns df) \<longrightarrow>
            train_recommender E df w = (Inr (), print NotEnoughItems w)"
    using n by (simp add: train_recommender_def Let_def)
  have 2: "''item_id'' \<notin> set (columns df) \<longrightarrow>
            train_recommender E df w = (Inl (KeyError ''item_id''), w)"
    by (simp add: train_recommender_def Let_def)
  have 3: "''item_id'' \<in> set (columns df) \<and> ''user_id'' \<notin> set (columns df) \<longrightarrow>
            train_recommender E df w = (Inl (KeyError ''user_id''), w)"
    by (simp add: train_recommender_def Let_def)
  have 4: "files (snd (train_recommender E df w)) = files w"
    using n by (simp add: train_recommender_def Let_def)
  then have 5: "load_recommender E (snd (train_recommender E df w)) = load_recommender E w"
    unfolding load_recommender_def by (intro load_model_cong) simp
  from 1 2 3 4 5 show ?thesis by blast
qed

theorem recommender_skips_small_catalog_witness:
  "card (set (map (\<lambda>r. cell_at r ''item_id'') (rows frame_one_item)) - {CNaN}) = 1 \<and>
   train_recommender env0 frame_one_item world_published
     = (Inr (), world_published\<lparr>stdout := [NotEnoughItems]\<rparr>) \<and>
   load_recommender env0 (snd (train_recommender env0 frame_one_item world_published))
     = Inr (Some old_recommender) \<and>
   train_recommender env0 frame_no_user world_published
     = (Inl (KeyError ''user_id''), world_published) \<and>
   load_recommender env0 (snd (train_recommender env0 frame_no_user world_published))
     = Inr (Some old_recommender)"
proof -
  have c: "card (set (map (\<lambda>r. cell_at r ''item_id'') (rows frame_one_item)) - {CNaN}) = 1"
    by (simp add: frame_one_item_def cell_at_def)
  then have a: "card (set (map (\<lambda>r. cell_at r ''item_id'') (rows frame_one_item)) - {CNaN}) < 2"
    by simp
  have a': "card (set (map (\<lambda>r. cell_at r ''item_id'') (rows frame_no_user)) - {CNaN}) < 2"
    by (simp add: frame_no_user_def cell_at_def)
  have cols: "''item_id'' \<in> set (columns frame_one_item) \<and> ''user_id'' \<in> set (columns frame_one_item)"
    by (simp add: frame_one_item_def)
  have cols': "''item_id'' \<in> set (columns frame_no_user) \<and> ''user_id'' \<notin> set (columns frame_no_user)"
    by (simp add: frame_no_user_def)
  have lr: "load_recommender env0 world_published = Inr (Some old_recommender)"
    by (simp add: load_recommender_def load_model_def model_defs fixture_defs)
  have pr: "print NotEnoughItems world_published = world_published\<lparr>stdout := [NotEnoughItems]\<rparr>"
    by (simp add: print_def fixture_defs)
  from recommender_skips_small_catalog [OF a, of env0 world_published] cols
  have 1: "train_recommender env0 frame_one_item world_published
             = (Inr (), print NotEnoughItems world_published)"
    and 2: "load_recommender env0 (snd (train_recommender env0 frame_one_item world_published))
             = load_recommender env0 world_published"
    by blast+
  from recommender_skips_small_catalog [OF a', of env0 world_published] cols'
  have 3: "train_recommender env0 frame_no_user world_published
             = (Inl (KeyError ''user_id''), world_published)"
    and 4: "load_recommender env0 (snd (train_recommender env0 frame_no_user world_published))
             = load_recommender env0 world_published"
    by blast+
  from c 1 2 3 4 show ?thesis
    unfolding pr lr by blast
qed

subsection \<open>C7: the default list of recommend\<close>

text \<open>
  C7. With a recommender artifact published, a request whose item id is not supplied or
  is not in the artifact's item index is answered, without error, by the first five items
  of the index: five items, or the whole index when it holds fewer.
\<close>

theorem recommend_fallback_default_list:
  assumes "files w (os_path_join (MODEL_DIR E) ''recommender.joblib'') = Some (Joblib r)"
    and "getitem r ''nn'' = Inr nn"
    and "getitem r ''items_index'' = Inr (PyList items)"
    and "item_id req = None \<or> (\<exists>i. item_id req = Some i \<and> CStr i \<notin> set items)"
  shows "recommend E req w = Inr (take 5 items) \<and>
         length (take 5 items) = min 5 (length items)"
proof -
  have l: "load_recommender E w = Inr (Some r)"
    using assms(1) by (simp add: load_recommender_def load_model_def os_path_exists_def)
  have ne: "r \<noteq> []"
    using assms(2) by (auto simp: getitem_def)
  show ?thesis
    using l ne assms(2,3,4) by (auto simp: recommend_def split: option.splits)
qed

theorem recommend_fallback_default_list_witness:
  "recommend env0 request_unknown world_catalog
     = Inr [CStr ''a'', CStr ''b'', CStr ''c'', CStr ''d'', CStr ''e''] \<and>
   recommend env0 request_empty world_published = Inr [CStr ''a'', CStr ''b'', CStr ''c'']"
proof -
  have 1: "files world_catalog (os_path_join (MODEL_DIR env0) ''recommender.joblib'')
             = Some (Joblib catalog_artifact)"
    "files world_published (os_path_join (MODEL_DIR env0) ''recommender.joblib'')
             = Some (Joblib old_recommender)"
    by (simp_all add: model_defs fixture_defs world_catalog_def)
  have 2: "getitem catalog_artifact ''nn'' = Inr (Estimator 12)"
    "getitem catalog_artifact ''items_index''
       = Inr (PyList [CStr ''a'', CStr ''b'', CStr ''c'', CStr ''d'', CStr ''e'', CStr ''f'', CStr ''g''])"
    "getitem old_recommender ''nn'' = Inr (Estimator 12)"
    "getitem old_recommender ''items_index'' = Inr (PyList [CStr ''a'', CStr ''b'', CStr ''c''])"
    by (simp_all add: getitem_def catalog_artifact_def old_recommender_def)
  have 3: "item_id request_unknown = None \<or>
       (\<exists>i. item_id request_unknown = Some i \<and>
          CStr i \<notin> set [CStr ''a'', CStr ''b'', CStr ''c'', CStr ''d'', CStr ''e'', CStr ''f'', CStr ''g''])"
    "item_id request_empty = None \<or>
       (\<exists>i. item_id request_empty = Some i \<and> CStr i \<notin> set [CStr ''a'', CStr ''b'', CStr ''c''])"
    by (simp_all add: request_unknown_def request_empty_def)
  from recommend_fallback_default_list [OF 1(1) 2(1) 2(2) 3(1)]
       recommend_fallback_default_list [OF 1(2) 2(3) 2(4) 3(2)]
  show ?thesis by simp
qed

subsection \<open>C8: missing features default to zero, in schema order\<close>

text \<open>
  C8. With an engagement artifact published, the row handed to the scaler and the model
  holds one value per feature name of the artifact, in the stored order: the request's
  value for a name the request has, and 0 for every other name. A missing feature never
  rejects the request: the answer is whatever the scaler and the model return on that row.
\<close>

theorem predict_defaults_missing_features:
  assumes "files w (os_path_join (MODEL_DIR E) ''engagement.joblib'') = Some (Joblib m)"
    and "getitem m ''features'' = Inr (PyList (map CStr names))"
    and "getitem m ''scaler'' = Inr (Estimator scaler)"
    and "getitem m ''model'' = Inr (Estimator clf)"
  shows "predict E payload w =
           (case scaler_transform E scaler [feature_row payload (map CStr names)] of
              Inl e \<Rightarrow> Inl e
            | Inr Xs \<Rightarrow> predict_proba E clf Xs) \<and>
         feature_row payload (map CStr names) =
           map (\<lambda>f. case map_of (payload_dict payload) f of Some v \<Rightarrow> v | None \<Rightarrow> CInt 0) names \<and>
         length (feature_row payload (map CStr names)) = length names \<and>
         (\<forall>i < length names.
            names ! i \<notin> {''session_duration'', ''pages_viewed'', ''actions'', ''hour''} \<longrightarrow>
              feature_row payload (map CStr names) ! i = CInt 0)"
proof -
  have l: "load_engagement E w = Inr (Some m)"
    using assms(1) by (simp add: load_engagement_def load_model_def os_path_exists_def)
  have ne: "m \<noteq> []"
    using assms(2) by (auto simp: getitem_def)
  have p: "predict E payload w =
           (case scaler_transform E scaler [feature_row payload (map CStr names)] of
              Inl e \<Rightarrow> Inl e
            | Inr Xs \<Rightarrow> predict_proba E clf Xs)"
    using l ne assms(2,3,4) by (simp add: predict_def Let_def split: sum.splits)
  have f: "feature_row payload (map CStr names) =
           map (\<lambda>f. case map_of (payload_dict payload) f of Some v \<Rightarrow> v | None \<Rightarrow> CInt 0) names"
    by (simp add: feature_row_def dict_get_def comp_def)
  have z: "\<forall>i < length names.
            names ! i \<notin> {''session_duration'', ''pages_viewed'', ''actions'', ''hour''} \<longrightarrow>
              feature_row payload (map CStr names) ! i = CInt 0"
    unfolding f by (simp add: payload_dict_def)
  from p f z show ?thesis by simp
qed

theorem predict_defaults_missing_features_witness:
  "predict env0 payload0 world_published = Inr (1 / 2) \<and>
   feature_row payload0 [CStr ''session_duration'', CStr ''hour'', CStr ''cat_ml'']
     = [CFloat 420, CInt 14, CInt 0]"
proof -
  have 1: "files world_published (os_path_join (MODEL_DIR env0) ''engagement.joblib'')
             = Some (Joblib old_engagement)"
    by (simp add: model_defs fixture_defs)
  have 2: "getitem old_engagement ''features''
       = Inr (PyList (map CStr [''session_duration'', ''hour'', ''cat_ml'']))"
    "getitem old_engagement ''scaler'' = Inr (Estimator 11)"
    "getitem old_engagement ''model'' = Inr (Estimator 10)"
    by (simp_all add: getitem_def old_engagement_def)
  from predict_defaults_missing_features [OF 1 2, of payload0]
  show ?thesis by (simp add: env0_def payload_dict_def payload0_def)
qed

subsection \<open>C9: the scheduler runs once, then installs the interval job\<close>

text \<open>
  C9. \<^verbatim>\<open>start_scheduler\<close> first runs the function once, on the state it is started in,
  where nothing has been asked of the scheduler yet; only after that run it adds the
  function as the interval job \<^verbatim>\<open>retrain_job\<close> with the given number of hours, starts
  the scheduler, and registers its shutdown at process exit. When the immediate run raises,
  the exception is printed and the job is installed all the same. With the job installed
  and the scheduler running, no further run happens before the first interval has elapsed,
  one more run has happened for every whole interval elapsed since the start, and once the
  scheduler has been shut down no run happens any more.
\<close>

theorem start_scheduler_runs_then_schedules:
  "(let s = \<lparr>jobs = [(''retrain_job'',
                       \<lparr>job_func = func, trigger = ''interval'', interval_hours = h\<rparr>)],
              running = True\<rparr>;
        registered = [JobAdded ''retrain_job'' ''interval'' h, SchedulerRunning];
        w' = (case func w of
                (Inl e, w1) \<Rightarrow>
                  w1\<lparr>stdout := stdout w1 @ [InitialRunFailed e, SchedulerStarted h],
                     atexit := atexit w1 @ [SchedulerShutdown],
                     scheduler_events := scheduler_events w1 @ registered\<rparr>
              | (Inr u, w1) \<Rightarrow>
                  w1\<lparr>stdout := stdout w1 @ [SchedulerStarted h],
                     atexit := atexit w1 @ [SchedulerShutdown],
                     scheduler_events := scheduler_events w1 @ registered\<rparr>)
    in start_scheduler func h w = (Inr s, w') \<and>
       (0 < h \<longrightarrow>
          (\<forall>k t. real k * h \<le> t \<and> t < real (Suc k) * h \<longrightarrow>
             elapse t s w' = ((\<lambda>x. snd (func x)) ^^ k) w')) \<and>
       (\<forall>t x. elapse t (run_hook SchedulerShutdown s) x = x))"
proof -
  let ?s = "\<lparr>jobs = [(''retrain_job'',
                       \<lparr>job_func = func, trigger = ''interval'', interval_hours = h\<rparr>)],
              running = True\<rparr>"
  have 1: "start_scheduler func h w =
     (Inr ?s,
      (case func w of
         (Inl e, w1) \<Rightarrow>
           w1\<lparr>stdout := stdout w1 @ [InitialRunFailed e, SchedulerStarted h],
              atexit := atexit w1 @ [SchedulerShutdown],
              scheduler_events :=
                scheduler_events w1 @ [JobAdded ''retrain_job'' ''interval'' h, SchedulerRunning]\<rparr>
       | (Inr u, w1) \<Rightarrow>
           w1\<lparr>stdout := stdout w1 @ [SchedulerStarted h],
              atexit := atexit w1 @ [SchedulerShutdown],
              scheduler_events :=
                scheduler_events w1 @ [JobAdded ''retrain_job'' ''interval'' h, SchedulerRunning]\<rparr>))"
    by (simp add: start_scheduler_def Let_def BackgroundScheduler_def add_job_def
          scheduler_start_def print_def split: prod.splits sum.splits)
  have 2: "elapse t ?s x = ((\<lambda>y. snd (func y)) ^^ k) x"
    if "0 < h" "real k * h \<le> t" "t < real (Suc k) * h" for k t x
    using floor_between [OF that] by (simp only: elapse_single_job)
  have 3: "elapse t (run_hook SchedulerShutdown ?s) x = x" for t x
    by (simp add: elapse_def run_hook_def scheduler_shutdown_def)
  from 1 2 3 show ?thesis
    unfolding Let_def by blast
qed

theorem start_scheduler_runs_then_schedules_witness:
  "start_scheduler (train_all env0 (Some ''/in.csv'')) 24 world_no_duration =
     (Inr \<lparr>jobs = [(''retrain_job'',
                    \<lparr>job_func = train_all env0 (Some ''/in.csv''), trigger = ''interval'',
                     interval_hours = 24\<rparr>)],
           running = True\<rparr>,
      world_no_duration
        \<lparr>stdout := [StartingTrainingRun, InitialRunFailed (KeyError ''session_duration''),
                    SchedulerStarted 24],
         atexit := [SchedulerShutdown],
         scheduler_events := [JobAdded ''retrain_job'' ''interval'' 24, SchedulerRunning]\<rparr>) \<and>
   elapse 50
     \<lparr>jobs = [(''retrain_job'',
               \<lparr>job_func = train_all env0 (Some ''/in.csv''), trigger = ''interval'',
                interval_hours = 24\<rparr>)],
      running = True\<rparr>
     (world_no_duration
        \<lparr>stdout := [StartingTrainingRun, InitialRunFailed (KeyError ''session_duration''),
                    SchedulerStarted 24],
         atexit := [SchedulerShutdown],
         scheduler_events := [JobAdded ''retrain_job'' ''interval'' 24, SchedulerRunning]\<rparr>)
     = world_no_duration
        \<lparr>stdout := [StartingTrainingRun, InitialRunFailed (KeyError ''session_duration''),
                    SchedulerStarted 24, StartingTrainingRun, StartingTrainingRun],
         atexit := [SchedulerShutdown],
         scheduler_events := [JobAdded ''retrain_job'' ''interval'' 24, SchedulerRunning]\<rparr>"
proof -
  let ?f = "train_all env0 (Some ''/in.csv'')"
  let ?s = "\<lparr>jobs = [(''retrain_job'',
               \<lparr>job_func = ?f, trigger = ''interval'', interval_hours = 24\<rparr>)],
      running = True\<rparr>"
  let ?w' = "world_no_duration
        \<lparr>stdout := [StartingTrainingRun, InitialRunFailed (KeyError ''session_duration''),
                    SchedulerStarted 24],
         atexit := [SchedulerShutdown],
         scheduler_events := [JobAdded ''retrain_job'' ''interval'' 24, SchedulerRunning]\<rparr>"
  have f: "files x ''/in.csv'' = Some (Csv frame_no_duration)"
    if "files x = files world_no_duration" for x :: "nat world"
    using that by (simp add: world_no_duration_def world0_def)
  have t: "?f world_no_duration
             = (Inl (KeyError ''session_duration''), print StartingTrainingRun world_no_duration)"
    by (rule train_all_no_duration) (simp add: f)
  have a: "atexit world_no_duration = []" "stdout world_no_duration = []"
    "scheduler_events world_no_duration = []"
    by (simp_all add: world_no_duration_def world0_def)
  have w': "(case ?f world_no_duration of
                (Inl e, w1) \<Rightarrow>
                  w1\<lparr>stdout := stdout w1 @ [InitialRunFailed e, SchedulerStarted 24],
                     atexit := atexit w1 @ [SchedulerShutdown],
                     scheduler_events := scheduler_events w1
                        @ [JobAdded ''retrain_job'' ''interval'' 24, SchedulerRunning]\<rparr>
              | (Inr u, w1) \<Rightarrow>
                  w1\<lparr>stdout := stdout w1 @ [SchedulerStarted 24],
                     atexit := atexit w1 @ [SchedulerShutdown],
                     scheduler_events := scheduler_events w1
                        @ [JobAdded ''retrain_job'' ''interval'' 24, SchedulerRunning]\<rparr>) = ?w'"
    by (simp add: t a print_def)
  have r1: "snd (?f ?w') = print StartingTrainingRun ?w'"
    by (subst train_all_no_duration) (simp_all add: f)
  have r2: "snd (?f (print StartingTrainingRun ?w')) = print StartingTrainingRun (print StartingTrainingRun ?w')"
    by (subst train_all_no_duration) (simp_all add: f)
  have two: "((\<lambda>x. snd (?f x)) ^^ 2) ?w' = print StartingTrainingRun (print StartingTrainingRun ?w')"
    by (simp add: numeral_2_eq_2 r1 r2)
  have b: "(0::real) < 24" "real 2 * 24 \<le> (50::real) \<and> (50::real) < real (Suc 2) * 24"
    by simp_all
  from start_scheduler_runs_then_schedules [of ?f 24 world_no_duration]
  have 1: "start_scheduler ?f 24 world_no_duration = (Inr ?s, ?w')"
    and 2: "elapse 50 ?s ?w' = ((\<lambda>x. snd (?f x)) ^^ 2) ?w'"
    unfolding Let_def w' using b by blast+
  from 1 2 show ?thesis
    unfolding two by (simp add: print_def a)
qed

subsection \<open>C10: an absent input file is replaced by synthetic data\<close>




end
